theory Spec2Isabelle
  imports Main
begin

section \<open>Values exchanged with the backend\<close>

text \<open>
  The remote procedures are called through \<open>(supabase.rpc as any)\<close>, so their \<open>data\<close>
  is an arbitrary JSON value. Objects are association lists of their own properties
  (the first binding of a key is its value). Numbers of a JSON response are kept as
  integers: the page only ever tests a value for truthiness, and \<open>0\<close> is the falsy number.
\<close>

datatype jsval =
    JUndefined
  | JNull
  | JBool bool
  | JNum int
  | JStr string
  | JArr "jsval list"
  | JObj "(string \<times> jsval) list"

text \<open>\<open>a ?? b\<close>\<close>

definition nullish :: "jsval \<Rightarrow> bool" where
  "nullish v = (v = JUndefined \<or> v = JNull)"

definition nullish_coalesce :: "jsval \<Rightarrow> jsval \<Rightarrow> jsval" where
  "nullish_coalesce a b = (if nullish a then b else a)"

text \<open>\<open>Array.isArray(v)\<close>\<close>

fun Array_isArray :: "jsval \<Rightarrow> bool" where
  "Array_isArray (JArr xs) = True"
| "Array_isArray v = False"

text \<open>\<open>rows[0]\<close> on an array: reading past the end of a JavaScript array gives \<open>undefined\<close>.\<close>

fun first_element :: "jsval \<Rightarrow> jsval" where
  "first_element (JArr (x # xs)) = x"
| "first_element v = JUndefined"

text \<open>
  \<open>v?.k\<close> for a key \<open>k\<close> that no prototype defines (\<open>email_exists\<close>, \<open>is_registered\<close>):
  \<open>undefined\<close> on \<open>null\<close> and \<open>undefined\<close>, the own property on an object, and
  \<open>undefined\<close> on every other value.
\<close>

fun optional_chain :: "jsval \<Rightarrow> string \<Rightarrow> jsval" where
  "optional_chain (JObj kvs) k = (case map_of kvs k of Some v \<Rightarrow> v | None \<Rightarrow> JUndefined)"
| "optional_chain v k = JUndefined"

text \<open>\<open>!!v\<close>\<close>

fun truthy :: "jsval \<Rightarrow> bool" where
  "truthy JUndefined = False"
| "truthy JNull = False"
| "truthy (JBool b) = b"
| "truthy (JNum n) = (n \<noteq> 0)"
| "truthy (JStr s) = (s \<noteq> [])"
| "truthy (JArr xs) = True"
| "truthy (JObj kvs) = True"

text \<open>A thrown or returned error object; the page reads only its \<open>message\<close>.\<close>

datatype js_error = Error (message: string)

text \<open>What an \<open>await\<close> yields: the promise's value, or the rejection that is thrown there.\<close>

datatype 'a awaited = Resolved 'a | Rejected js_error

text \<open>\<open>{ data, error }\<close> of a remote procedure call.\<close>

record rpc_response =
  rpc_data :: jsval
  rpc_error :: "js_error option"

text \<open>\<open>{ data: { user, session }, error }\<close> of \<open>signUp\<close> and \<open>signInWithPassword\<close>.\<close>

record auth_user =
  user_email :: string

record auth_session =
  access_token :: string

record auth_response =
  auth_data_user :: "auth_user option"
  auth_data_session :: "auth_session option"
  auth_error :: "js_error option"

text \<open>
  A row of the \<open>patients\<close> table as \<open>select('*')\<close> returns it: the four columns the page
  reads, and whatever further columns the table has (the record's extension).
\<close>

record patient =
  patient_id :: string
  patient_name :: string
  patient_email :: string
  patient_psychologist_id :: string

text \<open>\<open>{ data: patient, error: patientError }\<close> of \<open>maybeSingle()\<close>.\<close>

record 'p patient_response =
  patient_data :: "'p option"
  patient_error :: "js_error option"

text \<open>The object serialised under the \<open>patientSession\<close> key.\<close>

record session_record =
  session_id :: string
  session_name :: string
  session_email :: string
  session_psychologist_id :: string

datatype auth_event =
    INITIAL_SESSION
  | SIGNED_IN
  | SIGNED_OUT
  | PASSWORD_RECOVERY
  | TOKEN_REFRESHED
  | USER_UPDATED

section \<open>Component state and effects\<close>

text \<open>
  The seven \<open>useState\<close> cells of \<open>PatientLoginPage\<close>, with their initial values. A
  string is the list of its code units: \<open>password.length\<close> is \<open>length\<close>, and \<open>!email\<close>
  holds of the empty string only.
\<close>

record form_state =
  email :: string
  password :: string
  confirmPassword :: string
  loading :: bool
  isRegistration :: bool
  patientExists :: bool
  hasMarkedRegistration :: bool

definition initial_state :: form_state where
  "initial_state = \<lparr>email = [], password = [], confirmPassword = [], loading = False,
     isRegistration = False, patientExists = False, hasMarkedRegistration = False\<rparr>"

text \<open>
  Everything a handler does besides computing: the state setters it calls, the requests it
  sends, and the calls into the browser. A handler reads the state of the render it was
  created in, so it is a function from that state and the outcomes of its awaited calls
  to the list of effects it performs, in program order.
\<close>

datatype effect =
    SetEmail string
  | SetPassword string
  | SetConfirmPassword string
  | SetLoading bool
  | SetIsRegistration bool
  | SetPatientExists bool
  | SetHasMarkedRegistration bool
  | PreventDefault
  | Rpc string "(string \<times> jsval) list"
  | SignUp string string string
  | SignInWithPassword string string
  | SignOut
  | SelectPatientByEmail string
  | LocalStorage_setItem string session_record
  | Toast string string bool
  | Console_error string js_error
  | Navigate string

text \<open>The state after the setters of a list of effects have been applied, in order.\<close>

fun apply_effect :: "form_state \<Rightarrow> effect \<Rightarrow> form_state" where
  "apply_effect s (SetEmail v) = s\<lparr>email := v\<rparr>"
| "apply_effect s (SetPassword v) = s\<lparr>password := v\<rparr>"
| "apply_effect s (SetConfirmPassword v) = s\<lparr>confirmPassword := v\<rparr>"
| "apply_effect s (SetLoading b) = s\<lparr>loading := b\<rparr>"
| "apply_effect s (SetIsRegistration b) = s\<lparr>isRegistration := b\<rparr>"
| "apply_effect s (SetPatientExists b) = s\<lparr>patientExists := b\<rparr>"
| "apply_effect s (SetHasMarkedRegistration b) = s\<lparr>hasMarkedRegistration := b\<rparr>"
| "apply_effect s e = s"

definition state_after :: "form_state \<Rightarrow> effect list \<Rightarrow> form_state" where
  "state_after s es = foldl apply_effect s es"

text \<open>The browser's local storage after the writes of a list of effects.\<close>

fun apply_storage :: "(string \<rightharpoonup> session_record) \<Rightarrow> effect \<Rightarrow> (string \<rightharpoonup> session_record)" where
  "apply_storage st (LocalStorage_setItem k v) = st(k \<mapsto> v)"
| "apply_storage st e = st"

definition localStorage_after ::
  "(string \<rightharpoonup> session_record) \<Rightarrow> effect list \<Rightarrow> (string \<rightharpoonup> session_record)" where
  "localStorage_after st es = foldl apply_storage st es"

text \<open>Classes of effects.\<close>

fun is_setter :: "effect \<Rightarrow> bool" where
  "is_setter (SetEmail v) = True"
| "is_setter (SetPassword v) = True"
| "is_setter (SetConfirmPassword v) = True"
| "is_setter (SetLoading b) = True"
| "is_setter (SetIsRegistration b) = True"
| "is_setter (SetPatientExists b) = True"
| "is_setter (SetHasMarkedRegistration b) = True"
| "is_setter e = False"

fun is_request :: "effect \<Rightarrow> bool" where
  "is_request (Rpc n args) = True"
| "is_request (SignUp e p r) = True"
| "is_request (SignInWithPassword e p) = True"
| "is_request SignOut = True"
| "is_request (SelectPatientByEmail e) = True"
| "is_request e = False"

fun is_storage_write :: "effect \<Rightarrow> bool" where
  "is_storage_write (LocalStorage_setItem k v) = True"
| "is_storage_write e = False"

fun is_navigation :: "effect \<Rightarrow> bool" where
  "is_navigation (Navigate p) = True"
| "is_navigation e = False"

fun is_toast :: "effect \<Rightarrow> bool" where
  "is_toast (Toast t d v) = True"
| "is_toast e = False"

fun is_console_error :: "effect \<Rightarrow> bool" where
  "is_console_error (Console_error t e) = True"
| "is_console_error e = False"

fun is_patient_query :: "effect \<Rightarrow> bool" where
  "is_patient_query (SelectPatientByEmail e) = True"
| "is_patient_query e = False"

text \<open>\<open>(supabase.rpc as any)('mark_patient_registered')\<close>\<close>

definition mark_patient_registered :: effect where
  "mark_patient_registered = Rpc ''mark_patient_registered'' []"

definition mark_registered_calls :: "effect list \<Rightarrow> nat" where
  "mark_registered_calls es = count_list es mark_patient_registered"

section \<open>The form\<close>

text \<open>
  Which handler the form submits to (\<open>onSubmit={isRegistration ? handleRegistration :
  handleLogin}\<close>) and which title it shows.
\<close>

datatype form_mode = Login | Registration

definition formMode :: "form_state \<Rightarrow> form_mode" where
  "formMode s = (if isRegistration s then Registration else Login)"

text \<open>The \<open>disabled\<close> attribute of the submit button.\<close>

definition submit_disabled :: "form_state \<Rightarrow> bool" where
  "submit_disabled s =
     (loading s \<or> email s = [] \<or> password s = [] \<or>
      (isRegistration s \<and> (confirmPassword s = [] \<or> \<not> patientExists s)))"

text \<open>The inline notice under the title.\<close>

definition not_found_notice :: "form_state \<Rightarrow> bool" where
  "not_found_notice s = (\<not> patientExists s \<and> CHR ''@'' \<in> set (email s))"

section \<open>checkPatientStatus\<close>

definition lookup_result :: "jsval \<Rightarrow> jsval" where
  "lookup_result data =
     (let rows = nullish_coalesce data (JArr [])
      in if Array_isArray rows then first_element rows else rows)"

definition emailExists_of :: "jsval \<Rightarrow> bool" where
  "emailExists_of data = truthy (optional_chain (lookup_result data) ''email_exists'')"

definition isRegistered_of :: "jsval \<Rightarrow> bool" where
  "isRegistered_of data = truthy (optional_chain (lookup_result data) ''is_registered'')"

definition checkPatientStatus_catch :: "js_error \<Rightarrow> effect list \<times> jsval" where
  "checkPatientStatus_catch err =
     ([Console_error ''Error checking patient status via RPC:'' err,
       SetPatientExists False,
       SetIsRegistration False], JNull)"

definition checkPatientStatus_body :: "rpc_response awaited \<Rightarrow> effect list \<times> jsval" where
  "checkPatientStatus_body response =
     (case response of
        Rejected err \<Rightarrow> checkPatientStatus_catch err
      | Resolved r \<Rightarrow>
          (case rpc_error r of
             Some err \<Rightarrow> checkPatientStatus_catch err
           | None \<Rightarrow>
               (let emailExists = emailExists_of (rpc_data r);
                    isRegistered = isRegistered_of (rpc_data r)
                in ([SetPatientExists emailExists,
                     SetIsRegistration (if emailExists then \<not> isRegistered else False)],
                    lookup_result (rpc_data r)))))"

text \<open>The effects of \<open>checkPatientStatus(emailToCheck)\<close> and the value it returns.\<close>

definition checkPatientStatus :: "string \<Rightarrow> rpc_response awaited \<Rightarrow> effect list \<times> jsval" where
  "checkPatientStatus emailToCheck response =
     (Rpc ''check_patient_email'' [(''p_email'', JStr emailToCheck)]
        # fst (checkPatientStatus_body response),
      snd (checkPatientStatus_body response))"

definition handleEmailChange :: "string \<Rightarrow> rpc_response awaited \<Rightarrow> effect list" where
  "handleEmailChange newEmail response =
     SetEmail newEmail #
     (if CHR ''@'' \<in> set newEmail then fst (checkPatientStatus newEmail response) else [])"

section \<open>The auth-state listener\<close>

text \<open>
  The callback handed to \<open>setTimeout(..., 0)\<close>: the call, then the latch, or the log when
  the call throws.
\<close>

definition mark_registered_timer :: "rpc_response awaited \<Rightarrow> effect list" where
  "mark_registered_timer response =
     mark_patient_registered #
     (case response of
        Resolved r \<Rightarrow> [SetHasMarkedRegistration True]
      | Rejected err \<Rightarrow> [Console_error ''Error marking patient registered via RPC:'' err])"

text \<open>
  The listener subscribed by the effect of a render with state \<open>s\<close> (the effect
  resubscribes whenever \<open>isRegistration\<close> or \<open>hasMarkedRegistration\<close> changes), notified
  of \<open>event\<close>; \<open>response\<close> is the outcome of the call its timer makes.
\<close>

definition onAuthStateChange_listener ::
  "form_state \<Rightarrow> auth_event \<Rightarrow> auth_session option \<Rightarrow> rpc_response awaited \<Rightarrow> effect list" where
  "onAuthStateChange_listener s event session response =
     (if event = SIGNED_IN \<and> isRegistration s \<and> \<not> hasMarkedRegistration s
      then mark_registered_timer response else [])"

section \<open>handleRegistration\<close>

text \<open>
  The \<open>try\<close> block: the effects performed and the error thrown out of it, if any.
  \<open>origin\<close> is \<open>window.location.origin\<close>; \<open>signUpResult\<close> and \<open>markResult\<close> are the
  outcomes of the two awaited calls.
\<close>

definition handleRegistration_try ::
  "form_state \<Rightarrow> string \<Rightarrow> auth_response awaited \<Rightarrow> rpc_response awaited
     \<Rightarrow> effect list \<times> js_error option" where
  "handleRegistration_try s origin signUpResult markResult =
     (if password s \<noteq> confirmPassword s then
        ([], Some (Error ''Passwords don't match''))
      else if length (password s) < 6 then
        ([], Some (Error ''Password must be at least 6 characters long''))
      else
        (let signUp = SignUp (email s) (password s) (origin @ ''/patient-login'') in
         case signUpResult of
           Rejected err \<Rightarrow> ([signUp], Some err)
         | Resolved r \<Rightarrow>
             (case auth_error r of
                Some authError \<Rightarrow> ([signUp], Some authError)
              | None \<Rightarrow>
                  (case auth_data_user r of
                     None \<Rightarrow> ([signUp], Some (Error ''Registration failed''))
                   | Some user \<Rightarrow>
                       (signUp #
                        (case auth_data_session r of
                           Some session \<Rightarrow>
                             mark_patient_registered #
                             (case markResult of
                                Rejected err \<Rightarrow>
                                  [Console_error ''Error marking patient registered:'' err]
                              | Resolved m \<Rightarrow> []) @
                             [Toast ''Registration successful!''
                                ''You're all set. You can now sign in.'' False]
                         | None \<Rightarrow>
                             [Toast ''Confirm your email''
                                ''We sent a confirmation link. After confirming, return here to sign in.''
                                False]) @
                        [SetIsRegistration False, SetPassword [], SetConfirmPassword []],
                        None)))))"

definition handleRegistration ::
  "form_state \<Rightarrow> string \<Rightarrow> auth_response awaited \<Rightarrow> rpc_response awaited \<Rightarrow> effect list" where
  "handleRegistration s origin signUpResult markResult =
     [PreventDefault, SetLoading True] @
     (case handleRegistration_try s origin signUpResult markResult of
        (es, None) \<Rightarrow> es
      | (es, Some error) \<Rightarrow> es @ [Toast ''Registration Failed'' (message error) True]) @
     [SetLoading False]"

section \<open>handleLogin\<close>

text \<open>
  The \<open>try\<close> block of \<open>handleLogin\<close>. \<open>patient\<close> is read only in the branch where
  \<open>!patient\<close> is false, that is where \<open>patient_data q\<close> is \<open>Some\<close> row.
\<close>

definition handleLogin_try ::
  "form_state \<Rightarrow> auth_response awaited \<Rightarrow> ('a patient_scheme) patient_response awaited
     \<Rightarrow> js_error option awaited \<Rightarrow> effect list \<times> js_error option" where
  "handleLogin_try s signInResult patientResult signOutResult =
     (let signIn = SignInWithPassword (email s) (password s) in
      case signInResult of
        Rejected err \<Rightarrow> ([signIn], Some err)
      | Resolved r \<Rightarrow>
          (case auth_error r of
             Some authError \<Rightarrow> ([signIn], Some authError)
           | None \<Rightarrow>
               (case auth_data_user r of
                  None \<Rightarrow> ([signIn], Some (Error ''Authentication failed''))
                | Some user \<Rightarrow>
                    (let query = SelectPatientByEmail (user_email user) in
                     case patientResult of
                       Rejected err \<Rightarrow> ([signIn, query], Some err)
                     | Resolved q \<Rightarrow>
                         (if patient_error q \<noteq> None \<or> patient_data q = None then
                            ([signIn, query,
                              Toast ''Access denied''
                                ''You are not registered as a patient in this system.'' True,
                              SignOut],
                             case signOutResult of
                               Rejected err \<Rightarrow> Some err
                             | Resolved x \<Rightarrow> None)
                          else
                            (let patient = the (patient_data q) in
                             ([signIn, query,
                               LocalStorage_setItem ''patientSession''
                                 \<lparr>session_id = patient_id patient,
                                  session_name = patient_name patient,
                                  session_email = patient_email patient,
                                  session_psychologist_id = patient_psychologist_id patient\<rparr>,
                               Toast ''Welcome back!''
                                 (''Hello '' @ patient_name patient @ '', you're now logged in.'')
                                 False,
                               Navigate ''/patient-dashboard''],
                              None)))))))"

definition handleLogin ::
  "form_state \<Rightarrow> auth_response awaited \<Rightarrow> ('a patient_scheme) patient_response awaited
     \<Rightarrow> js_error option awaited \<Rightarrow> effect list" where
  "handleLogin s signInResult patientResult signOutResult =
     [PreventDefault, SetLoading True] @
     (case handleLogin_try s signInResult patientResult signOutResult of
        (es, None) \<Rightarrow> es
      | (es, Some error) \<Rightarrow> es @ [Toast ''Login Failed'' (message error) True]) @
     [SetLoading False]"

text \<open>The error that \<open>checkPatientStatus\<close> throws into its \<open>catch\<close>, if any.\<close>

definition lookup_error :: "rpc_response awaited \<Rightarrow> js_error option" where
  "lookup_error response =
     (case response of Rejected err \<Rightarrow> Some err | Resolved r \<Rightarrow> rpc_error r)"

definition access_denied_toast :: effect where
  "access_denied_toast =
     Toast ''Access denied'' ''You are not registered as a patient in this system.'' True"

section \<open>Sample inputs\<close>

definition example_origin :: string where
  "example_origin = ''https://aasha.example''"

definition registering_form :: form_state where
  "registering_form = \<lparr>email = ''new@clinic.com'', password = ''secret1'',
     confirmPassword = ''secret1'', loading = False, isRegistration = True,
     patientExists = True, hasMarkedRegistration = False\<rparr>"

definition login_form :: form_state where
  "login_form = \<lparr>email = ''pat@clinic.com'', password = ''secret1'',
     confirmPassword = [], loading = False, isRegistration = False,
     patientExists = True, hasMarkedRegistration = False\<rparr>"

definition example_session :: auth_session where
  "example_session = \<lparr>access_token = ''token''\<rparr>"

definition signUp_confirmed :: auth_response where
  "signUp_confirmed = \<lparr>auth_data_user = Some \<lparr>user_email = ''new@clinic.com''\<rparr>,
     auth_data_session = Some example_session, auth_error = None\<rparr>"

definition signUp_pending :: auth_response where
  "signUp_pending = \<lparr>auth_data_user = Some \<lparr>user_email = ''new@clinic.com''\<rparr>,
     auth_data_session = None, auth_error = None\<rparr>"

definition signIn_ok :: auth_response where
  "signIn_ok = \<lparr>auth_data_user = Some \<lparr>user_email = ''pat@clinic.com''\<rparr>,
     auth_data_session = Some example_session, auth_error = None\<rparr>"

definition rpc_ok :: rpc_response where
  "rpc_ok = \<lparr>rpc_data = JNull, rpc_error = None\<rparr>"

definition pat :: patient where
  "pat = \<lparr>patient_id = ''p1'', patient_name = ''Pat'', patient_email = ''pat@clinic.com'',
     patient_psychologist_id = ''psy1''\<rparr>"

text \<open>
  A response that is not a row set of booleans: \<open>email_exists\<close> is the string \<open>"no"\<close> and
  \<open>is_registered\<close> is missing.
\<close>

definition malformed_row :: rpc_response where
  "malformed_row =
     \<lparr>rpc_data = JArr [JObj [(''email_exists'', JStr ''no'')]], rpc_error = None\<rparr>"

section \<open>Running a list of effects\<close>

lemma state_after_Nil: "state_after s [] = s"
  by (simp add: state_after_def)

lemma state_after_Cons: "state_after s (e # es) = state_after (apply_effect s e) es"
  by (simp add: state_after_def)

lemma state_after_append: "state_after s (xs @ ys) = state_after (state_after s xs) ys"
  by (simp add: state_after_def)

lemma localStorage_after_Nil: "localStorage_after st [] = st"
  by (simp add: localStorage_after_def)

lemma localStorage_after_Cons:
  "localStorage_after st (e # es) = localStorage_after (apply_storage st e) es"
  by (simp add: localStorage_after_def)

lemma localStorage_after_append:
  "localStorage_after st (xs @ ys) = localStorage_after (localStorage_after st xs) ys"
  by (simp add: localStorage_after_def)

lemmas run_simps = state_after_Nil state_after_Cons state_after_append
  localStorage_after_Nil localStorage_after_Cons localStorage_after_append

lemmas lookup_defs = emailExists_of_def isRegistered_of_def lookup_result_def
  nullish_coalesce_def nullish_def

section \<open>The email-status lookup\<close>

lemma checkPatientStatus_success:
  "fst (checkPatientStatus e (Resolved \<lparr>rpc_data = d, rpc_error = None\<rparr>)) =
     [Rpc ''check_patient_email'' [(''p_email'', JStr e)],
      SetPatientExists (emailExists_of d),
      SetIsRegistration (if emailExists_of d then \<not> isRegistered_of d else False)]"
  by (simp add: checkPatientStatus_def checkPatientStatus_body_def Let_def)

lemma checkPatientStatus_failure:
  assumes "lookup_error response = Some err"
  shows "fst (checkPatientStatus e response) =
     [Rpc ''check_patient_email'' [(''p_email'', JStr e)],
      Console_error ''Error checking patient status via RPC:'' err,
      SetPatientExists False,
      SetIsRegistration False]"
  using assms
  by (simp add: checkPatientStatus_def checkPatientStatus_body_def checkPatientStatus_catch_def
      lookup_error_def split: awaited.splits option.splits)

text \<open>
  C1. After a lookup that returns without error, the form is in \<open>Registration\<close> mode
  exactly when the result has \<open>emailExists\<close> true and \<open>isRegistered\<close> false, and in
  \<open>Login\<close> mode for every other result; \<open>patientExists\<close> holds \<open>emailExists\<close>. For a
  first row \<open>{email_exists: a, is_registered: b}\<close> of booleans the two flags are \<open>a\<close>
  and \<open>b\<close>. A lookup that ends in an error leaves the form in \<open>Login\<close> mode.
\<close>

theorem checkPatientStatus_form_mode:
  "(formMode (state_after s (fst (checkPatientStatus e (Resolved \<lparr>rpc_data = d, rpc_error = None\<rparr>))))
      = Registration) = (emailExists_of d \<and> \<not> isRegistered_of d)
   \<and> (formMode (state_after s (fst (checkPatientStatus e (Resolved \<lparr>rpc_data = d, rpc_error = None\<rparr>))))
      = Login) = (\<not> (emailExists_of d \<and> \<not> isRegistered_of d))
   \<and> patientExists (state_after s (fst (checkPatientStatus e (Resolved \<lparr>rpc_data = d, rpc_error = None\<rparr>))))
      = emailExists_of d
   \<and> emailExists_of (JArr (JObj [(''email_exists'', JBool a), (''is_registered'', JBool b)] # rest)) = a
   \<and> isRegistered_of (JArr (JObj [(''email_exists'', JBool a), (''is_registered'', JBool b)] # rest)) = b
   \<and> formMode (state_after s (fst (checkPatientStatus e (Rejected err)))) = Login
   \<and> formMode (state_after s (fst (checkPatientStatus e (Resolved \<lparr>rpc_data = d, rpc_error = Some err\<rparr>))))
      = Login"
proof -
  have rejected: "lookup_error (Rejected err) = Some err"
    by (simp add: lookup_error_def)
  have failed: "lookup_error (Resolved \<lparr>rpc_data = d, rpc_error = Some err\<rparr>) = Some err"
    by (simp add: lookup_error_def)
  show ?thesis
    unfolding checkPatientStatus_failure [OF rejected] checkPatientStatus_failure [OF failed]
    by (simp add: checkPatientStatus_success formMode_def run_simps lookup_defs)
qed

text \<open>
  C7. A lookup fails when it ends in an error (the call rejects, or its response carries
  an \<open>error\<close>) or when its response, without error, has no truthy \<open>email_exists\<close> in its
  first row: \<open>undefined\<close>, \<open>null\<close>, an empty array, a boolean, a number, a string, or a
  row without the key. Every such lookup sets \<open>patientExists\<close> and \<open>isRegistration\<close> to
  false, so the form is in \<open>Login\<close> mode and, for an email containing \<open>@\<close>, shows the
  not-found notice. No lookup at all shows a toast, and a lookup writes to the console
  exactly when it ends in an error: once, that error.
\<close>

theorem checkPatientStatus_fail_closed:
  assumes "lookup_error response = Some err
      \<or> (response = Resolved r \<and> rpc_error r = None \<and> \<not> emailExists_of (rpc_data r))"
  shows "patientExists (state_after s (fst (checkPatientStatus e response))) = False
     \<and> isRegistration (state_after s (fst (checkPatientStatus e response))) = False
     \<and> formMode (state_after s (fst (checkPatientStatus e response))) = Login
     \<and> (CHR ''@'' \<in> set e \<longrightarrow> not_found_notice (state_after s (handleEmailChange e response)))
     \<and> filter is_toast (fst (checkPatientStatus e other)) = []
     \<and> filter is_console_error (fst (checkPatientStatus e other)) =
         (case lookup_error other of
            Some err' \<Rightarrow> [Console_error ''Error checking patient status via RPC:'' err']
          | None \<Rightarrow> [])
     \<and> \<not> emailExists_of JUndefined \<and> \<not> emailExists_of JNull \<and> \<not> emailExists_of (JArr [])
     \<and> \<not> emailExists_of (JBool b) \<and> \<not> emailExists_of (JNum n) \<and> \<not> emailExists_of (JStr str)
     \<and> (map_of kvs ''email_exists'' = None \<longrightarrow>
          \<not> emailExists_of (JArr (JObj kvs # rest)) \<and> \<not> emailExists_of (JObj kvs))"
proof -
  have reset: "fst (checkPatientStatus e response) =
      Rpc ''check_patient_email'' [(''p_email'', JStr e)] #
      (case lookup_error response of
         Some err' \<Rightarrow> [Console_error ''Error checking patient status via RPC:'' err']
       | None \<Rightarrow> []) @
      [SetPatientExists False, SetIsRegistration False]"
    using assms
    by (auto simp add: checkPatientStatus_def checkPatientStatus_body_def
        checkPatientStatus_catch_def lookup_error_def Let_def split: awaited.splits option.splits)
  have state: "patientExists (state_after s (fst (checkPatientStatus e response))) = False
     \<and> isRegistration (state_after s (fst (checkPatientStatus e response))) = False
     \<and> formMode (state_after s (fst (checkPatientStatus e response))) = Login
     \<and> (CHR ''@'' \<in> set e \<longrightarrow> not_found_notice (state_after s (handleEmailChange e response)))"
    unfolding handleEmailChange_def reset
    by (simp add: run_simps formMode_def not_found_notice_def split: option.splits)
  have quiet: "filter is_toast (fst (checkPatientStatus e other)) = []
     \<and> filter is_console_error (fst (checkPatientStatus e other)) =
         (case lookup_error other of
            Some err' \<Rightarrow> [Console_error ''Error checking patient status via RPC:'' err']
          | None \<Rightarrow> [])"
    by (simp add: checkPatientStatus_def checkPatientStatus_body_def
        checkPatientStatus_catch_def lookup_error_def Let_def split: awaited.splits option.splits)
  have shapes: "\<not> emailExists_of JUndefined \<and> \<not> emailExists_of JNull \<and> \<not> emailExists_of (JArr [])
     \<and> \<not> emailExists_of (JBool b) \<and> \<not> emailExists_of (JNum n) \<and> \<not> emailExists_of (JStr str)
     \<and> (map_of kvs ''email_exists'' = None \<longrightarrow>
          \<not> emailExists_of (JArr (JObj kvs # rest)) \<and> \<not> emailExists_of (JObj kvs))"
    by (simp add: lookup_defs)
  from state quiet shapes show ?thesis by simp
qed

theorem checkPatientStatus_fail_closed_witness:
  "lookup_error (Rejected (Error ''network'')) = Some (Error ''network'')
   \<and> patientExists (state_after registering_form
        (fst (checkPatientStatus ''a@b.com'' (Rejected (Error ''network''))))) = False
   \<and> isRegistration (state_after registering_form
        (fst (checkPatientStatus ''a@b.com'' (Rejected (Error ''network''))))) = False
   \<and> formMode (state_after registering_form
        (fst (checkPatientStatus ''a@b.com'' (Rejected (Error ''network''))))) = Login
   \<and> CHR ''@'' \<in> set ''a@b.com''
   \<and> not_found_notice (state_after registering_form
        (handleEmailChange ''a@b.com'' (Rejected (Error ''network''))))
   \<and> filter is_toast (fst (checkPatientStatus ''a@b.com'' (Rejected (Error ''network'')))) = []
   \<and> filter is_console_error (fst (checkPatientStatus ''a@b.com'' (Rejected (Error ''network'')))) =
         [Console_error ''Error checking patient status via RPC:'' (Error ''network'')]
   \<and> rpc_error rpc_ok = None \<and> \<not> emailExists_of (rpc_data rpc_ok)
   \<and> patientExists (state_after registering_form
        (fst (checkPatientStatus ''a@b.com'' (Resolved rpc_ok)))) = False
   \<and> isRegistration (state_after registering_form
        (fst (checkPatientStatus ''a@b.com'' (Resolved rpc_ok)))) = False
   \<and> formMode (state_after registering_form
        (fst (checkPatientStatus ''a@b.com'' (Resolved rpc_ok)))) = Login
   \<and> not_found_notice (state_after registering_form
        (handleEmailChange ''a@b.com'' (Resolved rpc_ok)))
   \<and> filter is_toast (fst (checkPatientStatus ''a@b.com'' (Resolved rpc_ok))) = []
   \<and> filter is_console_error (fst (checkPatientStatus ''a@b.com'' (Resolved rpc_ok))) = []
   \<and> map_of [(''is_registered'', JBool True)] ''email_exists'' = None
   \<and> \<not> emailExists_of (JArr [JObj [(''is_registered'', JBool True)]])"
  using checkPatientStatus_fail_closed
    [of "Rejected (Error ''network'')" "Error ''network''" rpc_ok registering_form "''a@b.com''"
      "Rejected (Error ''network'')" True 0 "[]" "[(''is_registered'', JBool True)]" "[]"]
    checkPatientStatus_fail_closed
    [of "Resolved rpc_ok" "Error ''network''" rpc_ok registering_form "''a@b.com''"
      "Resolved rpc_ok" True 0 "[]" "[(''is_registered'', JBool True)]" "[]"]
  by (simp add: lookup_error_def rpc_ok_def lookup_defs)

text \<open>
  The flags of a response without error are the truthiness of the first row's
  properties: the malformed row \<open>[{email_exists: "no"}]\<close> is taken as an existing,
  unregistered patient, and nothing is logged.
\<close>

theorem checkPatientStatus_malformed_counterexample:
  "patientExists (state_after initial_state
       (fst (checkPatientStatus ''a@b.com'' (Resolved malformed_row))))
   \<and> isRegistration (state_after initial_state
       (fst (checkPatientStatus ''a@b.com'' (Resolved malformed_row))))
   \<and> filter is_console_error (fst (checkPatientStatus ''a@b.com'' (Resolved malformed_row))) = []"
  by (simp add: malformed_row_def checkPatientStatus_success run_simps lookup_defs
      initial_state_def)

section \<open>The submit button\<close>

text \<open>
  C5. Whenever the submit button is enabled, the email and the password are non-empty
  and, in \<open>Registration\<close> mode, the confirmation is non-empty and \<open>patientExists\<close> is
  true. In particular the button is disabled in \<open>Registration\<close> mode whenever
  \<open>patientExists\<close> is false, whatever the fields hold.
\<close>

theorem submit_disabled_contract:
  "(\<not> submit_disabled s \<longrightarrow>
       email s \<noteq> [] \<and> password s \<noteq> [] \<and>
       (formMode s = Registration \<longrightarrow> confirmPassword s \<noteq> [] \<and> patientExists s))
   \<and> (formMode s = Registration \<and> \<not> patientExists s \<longrightarrow> submit_disabled s)"
  by (auto simp add: submit_disabled_def formMode_def)

theorem submit_disabled_contract_witness:
  "\<not> submit_disabled registering_form
   \<and> email registering_form \<noteq> [] \<and> password registering_form \<noteq> []
   \<and> formMode registering_form = Registration
   \<and> confirmPassword registering_form \<noteq> [] \<and> patientExists registering_form
   \<and> formMode (registering_form\<lparr>patientExists := False\<rparr>) = Registration
   \<and> \<not> patientExists (registering_form\<lparr>patientExists := False\<rparr>)
   \<and> submit_disabled (registering_form\<lparr>patientExists := False\<rparr>)"
  using submit_disabled_contract [of registering_form]
    submit_disabled_contract [of "registering_form\<lparr>patientExists := False\<rparr>"]
  by (simp add: registering_form_def submit_disabled_def formMode_def)

section \<open>Registration\<close>

text \<open>
  C6. A registration whose password differs from its confirmation, or is shorter than
  six characters, does nothing but toggle \<open>loading\<close> and show the ``Registration Failed''
  toast with the validation message: it sends no request at all, so no \<open>signUp\<close>.
\<close>

theorem handleRegistration_validation:
  assumes "password s \<noteq> confirmPassword s \<or> length (password s) < 6"
  shows "handleRegistration s origin signUpResult markResult =
       [PreventDefault, SetLoading True,
        Toast ''Registration Failed''
          (if password s \<noteq> confirmPassword s then ''Passwords don't match''
           else ''Password must be at least 6 characters long'') True,
        SetLoading False]
     \<and> filter is_request (handleRegistration s origin signUpResult markResult) = []"
  using assms
  by (auto simp add: handleRegistration_def handleRegistration_try_def)

theorem handleRegistration_validation_witness:
  "length (password (registering_form\<lparr>password := ''abc'', confirmPassword := ''abc''\<rparr>)) < 6
   \<and> handleRegistration (registering_form\<lparr>password := ''abc'', confirmPassword := ''abc''\<rparr>)
        example_origin (Resolved signUp_confirmed) (Resolved rpc_ok) =
       [PreventDefault, SetLoading True,
        Toast ''Registration Failed'' ''Password must be at least 6 characters long'' True,
        SetLoading False]
   \<and> filter is_request
        (handleRegistration (registering_form\<lparr>password := ''abc'', confirmPassword := ''abc''\<rparr>)
           example_origin (Resolved signUp_confirmed) (Resolved rpc_ok)) = []"
  using handleRegistration_validation
    [of "registering_form\<lparr>password := ''abc'', confirmPassword := ''abc''\<rparr>"
      example_origin "Resolved signUp_confirmed" "Resolved rpc_ok"]
  by (simp add: registering_form_def)

text \<open>
  C8. A registration that passes validation and whose \<open>signUp\<close> returns a user without
  error, with or without a session, ends with the form in \<open>Login\<close> mode and both
  password fields empty.
\<close>

theorem handleRegistration_resets_form:
  assumes "password s = confirmPassword s" and "6 \<le> length (password s)"
    and "signUpResult = Resolved r" and "auth_error r = None" and "auth_data_user r = Some user"
  shows "formMode (state_after s (handleRegistration s origin signUpResult markResult)) = Login
     \<and> password (state_after s (handleRegistration s origin signUpResult markResult)) = []
     \<and> confirmPassword (state_after s (handleRegistration s origin signUpResult markResult)) = []"
  using assms
  by (simp add: handleRegistration_def handleRegistration_try_def run_simps formMode_def
      mark_patient_registered_def split: option.splits awaited.splits)

theorem handleRegistration_resets_form_witness:
  "password registering_form = confirmPassword registering_form
   \<and> 6 \<le> length (password registering_form)
   \<and> formMode registering_form = Registration
   \<and> formMode (state_after registering_form
        (handleRegistration registering_form example_origin (Resolved signUp_pending) (Resolved rpc_ok))) = Login
   \<and> password (state_after registering_form
        (handleRegistration registering_form example_origin (Resolved signUp_pending) (Resolved rpc_ok))) = []
   \<and> confirmPassword (state_after registering_form
        (handleRegistration registering_form example_origin (Resolved signUp_pending) (Resolved rpc_ok))) = []
   \<and> formMode (state_after registering_form
        (handleRegistration registering_form example_origin (Resolved signUp_confirmed) (Resolved rpc_ok))) = Login
   \<and> password (state_after registering_form
        (handleRegistration registering_form example_origin (Resolved signUp_confirmed) (Resolved rpc_ok))) = []
   \<and> confirmPassword (state_after registering_form
        (handleRegistration registering_form example_origin (Resolved signUp_confirmed) (Resolved rpc_ok))) = []"
  using handleRegistration_resets_form
    [of registering_form "Resolved signUp_pending" signUp_pending
      "\<lparr>user_email = ''new@clinic.com''\<rparr>" example_origin "Resolved rpc_ok"]
    handleRegistration_resets_form
    [of registering_form "Resolved signUp_confirmed" signUp_confirmed
      "\<lparr>user_email = ''new@clinic.com''\<rparr>" example_origin "Resolved rpc_ok"]
  by (simp add: registering_form_def signUp_pending_def signUp_confirmed_def formMode_def)

text \<open>
  C10. A registration that fails (validation, a rejected or failed \<open>signUp\<close>, or no user)
  calls no setter but \<open>setLoading(true)\<close> and then \<open>setLoading(false)\<close>: the state
  afterwards is the state before with \<open>loading\<close> false, and the form mode is unchanged.
\<close>

theorem handleRegistration_failure_frame:
  assumes "password s \<noteq> confirmPassword s \<or> length (password s) < 6
      \<or> signUpResult = Rejected err
      \<or> (signUpResult = Resolved r \<and> (auth_error r \<noteq> None \<or> auth_data_user r = None))"
  shows "filter is_setter (handleRegistration s origin signUpResult markResult) =
       [SetLoading True, SetLoading False]
     \<and> state_after s (handleRegistration s origin signUpResult markResult) = s\<lparr>loading := False\<rparr>
     \<and> formMode (state_after s (handleRegistration s origin signUpResult markResult)) = formMode s"
  using assms
  by (auto simp add: handleRegistration_def handleRegistration_try_def run_simps Let_def
      formMode_def split: option.splits awaited.splits)

theorem handleRegistration_failure_frame_witness:
  "filter is_setter (handleRegistration registering_form example_origin
       (Resolved (signUp_pending\<lparr>auth_error := Some (Error ''User already registered'')\<rparr>))
       (Resolved rpc_ok)) = [SetLoading True, SetLoading False]
   \<and> state_after registering_form (handleRegistration registering_form example_origin
       (Resolved (signUp_pending\<lparr>auth_error := Some (Error ''User already registered'')\<rparr>))
       (Resolved rpc_ok)) = registering_form
   \<and> formMode (state_after registering_form (handleRegistration registering_form example_origin
       (Resolved (signUp_pending\<lparr>auth_error := Some (Error ''User already registered'')\<rparr>))
       (Resolved rpc_ok))) = Registration"
  using handleRegistration_failure_frame [of registering_form
      "Resolved (signUp_pending\<lparr>auth_error := Some (Error ''User already registered'')\<rparr>)"
      "Error ''User already registered''"
      "signUp_pending\<lparr>auth_error := Some (Error ''User already registered'')\<rparr>"
      example_origin "Resolved rpc_ok"]
  by (simp add: registering_form_def formMode_def)

section \<open>Marking the patient as registered\<close>

text \<open>
  The handler and the listener's timer are separate tasks whose effects interleave.
  Neither reads what the other has set: the handler works on the state of the render it
  was submitted from, and the listener on the state of the render that subscribed it.
  So the number of calls in an interleaving is the sum over the two tasks.
\<close>

lemma count_list_shuffles:
  "zs \<in> shuffles xs ys \<Longrightarrow> count_list zs a = count_list xs a + count_list ys a"
proof (induction xs ys arbitrary: zs rule: shuffles.induct)
  case (1 ys)
  then show ?case by simp
next
  case (2 xs)
  then show ?case by simp
next
  case (3 x xs y ys)
  then show ?case by auto
qed

text \<open>The direct call of \<open>handleRegistration\<close> neither reads nor sets the latch.\<close>

lemma handleRegistration_ignores_latch:
  "handleRegistration (s\<lparr>hasMarkedRegistration := b\<rparr>) origin signUpResult markResult =
   handleRegistration s origin signUpResult markResult"
  by (simp add: handleRegistration_def handleRegistration_try_def)

lemma handleRegistration_leaves_latch:
  "hasMarkedRegistration (state_after s (handleRegistration s origin signUpResult markResult)) =
   hasMarkedRegistration s"
  by (simp add: handleRegistration_def handleRegistration_try_def run_simps Let_def
      mark_patient_registered_def split: awaited.splits option.splits)

lemma handleRegistration_direct_call:
  assumes "password s = confirmPassword s" and "6 \<le> length (password s)"
    and "signUpResult = Resolved r" and "auth_error r = None" and "auth_data_user r = Some user"
    and "auth_data_session r = Some session"
  shows "mark_registered_calls (handleRegistration s origin signUpResult markResult) = 1"
  using assms
  by (simp add: mark_registered_calls_def handleRegistration_def handleRegistration_try_def
      mark_patient_registered_def split: awaited.splits)

text \<open>The listener calls once while the latch is unset in \<open>Registration\<close> mode, and not otherwise.\<close>

lemma listener_call:
  assumes "isRegistration s" and "\<not> hasMarkedRegistration s"
  shows "mark_registered_calls (onAuthStateChange_listener s SIGNED_IN session response) = 1"
  using assms
  by (simp add: mark_registered_calls_def onAuthStateChange_listener_def
      mark_registered_timer_def mark_patient_registered_def split: awaited.splits)

lemma listener_latched:
  assumes "hasMarkedRegistration s \<or> \<not> isRegistration s \<or> event \<noteq> SIGNED_IN"
  shows "onAuthStateChange_listener s event session response = []"
  using assms by (auto simp add: onAuthStateChange_listener_def)

lemma registration_interleavings_call_twice:
  assumes "password s = confirmPassword s" and "6 \<le> length (password s)"
    and "signUpResult = Resolved r" and "auth_error r = None" and "auth_data_user r = Some user"
    and "auth_data_session r = Some session"
    and "isRegistration s" and "\<not> hasMarkedRegistration s"
    and "t \<in> shuffles (handleRegistration s origin signUpResult markResult)
                (onAuthStateChange_listener s SIGNED_IN (Some session) timerResult)"
  shows "mark_registered_calls t = 2"
proof -
  have "mark_registered_calls t =
      mark_registered_calls (handleRegistration s origin signUpResult markResult) +
      mark_registered_calls (onAuthStateChange_listener s SIGNED_IN (Some session) timerResult)"
    unfolding mark_registered_calls_def using assms(9) by (rule count_list_shuffles)
  also have "\<dots> = 1 + 1"
    using handleRegistration_direct_call [OF assms(1-6)] listener_call [OF assms(7,8)] by simp
  finally show ?thesis by simp
qed

text \<open>
  C2. The sample registration (\<open>new@clinic.com\<close>, password \<open>secret1\<close>, latch unset) whose
  \<open>signUp\<close> returns a user and a session, with the \<open>SIGNED_IN\<close> notification of that
  sign-in delivered to the listener of the same render: \<open>handleRegistration\<close> calls
  \<open>mark_patient_registered\<close> once, the listener's timer calls it once more, and the
  two together call it twice.
\<close>

theorem mark_registered_called_twice:
  "mark_registered_calls
      (handleRegistration registering_form example_origin (Resolved signUp_confirmed) (Resolved rpc_ok)) = 1
   \<and> mark_registered_calls
      (onAuthStateChange_listener registering_form SIGNED_IN (Some example_session) (Resolved rpc_ok)) = 1
   \<and> mark_registered_calls
      (handleRegistration registering_form example_origin (Resolved signUp_confirmed) (Resolved rpc_ok)
       @ onAuthStateChange_listener registering_form SIGNED_IN (Some example_session) (Resolved rpc_ok)) = 2"
  by (simp add: mark_registered_calls_def handleRegistration_def handleRegistration_try_def
      onAuthStateChange_listener_def mark_registered_timer_def mark_patient_registered_def
      registering_form_def signUp_confirmed_def)

section \<open>Login\<close>

text \<open>The two ways \<open>handleLogin\<close> ends once the credentials are verified.\<close>

lemma handleLogin_denied:
  assumes "signInResult = Resolved r" and "auth_error r = None" and "auth_data_user r = Some user"
    and "patientResult = Resolved q" and "patient_error q \<noteq> None \<or> patient_data q = None"
  shows "handleLogin s signInResult patientResult signOutResult =
     [PreventDefault, SetLoading True,
      SignInWithPassword (email s) (password s),
      SelectPatientByEmail (user_email user),
      access_denied_toast,
      SignOut] @
     (case signOutResult of
        Rejected err \<Rightarrow> [Toast ''Login Failed'' (message err) True]
      | Resolved x \<Rightarrow> []) @
     [SetLoading False]"
  using assms
  by (auto simp add: handleLogin_def handleLogin_try_def access_denied_toast_def Let_def
      split: awaited.splits)

lemma handleLogin_granted:
  assumes "signInResult = Resolved r" and "auth_error r = None" and "auth_data_user r = Some user"
    and "patientResult = Resolved q" and "patient_error q = None" and "patient_data q = Some p"
  shows "handleLogin s signInResult patientResult signOutResult =
     [PreventDefault, SetLoading True,
      SignInWithPassword (email s) (password s),
      SelectPatientByEmail (user_email user),
      LocalStorage_setItem ''patientSession''
        \<lparr>session_id = patient_id p, session_name = patient_name p,
         session_email = patient_email p,
         session_psychologist_id = patient_psychologist_id p\<rparr>,
      Toast ''Welcome back!'' (''Hello '' @ patient_name p @ '', you're now logged in.'') False,
      Navigate ''/patient-dashboard'',
      SetLoading False]"
  using assms
  by (simp add: handleLogin_def handleLogin_try_def Let_def)



text \<open>
  C4. A login whose credentials are verified and whose patient query returns a row
  without error writes local storage exactly once, under \<open>patientSession\<close>, the record
  of the row's \<open>id\<close>, \<open>name\<close>, \<open>email\<close> and \<open>psychologist_id\<close>, and navigates once, to
  \<open>/patient-dashboard\<close>.
\<close>

theorem handleLogin_patient_record:
  assumes "signInResult = Resolved r" and "auth_error r = None" and "auth_data_user r = Some user"
    and "patientResult = Resolved q" and "patient_error q = None" and "patient_data q = Some p"
  shows "filter is_storage_write (handleLogin s signInResult patientResult signOutResult) =
       [LocalStorage_setItem ''patientSession''
          \<lparr>session_id = patient_id p, session_name = patient_name p,
           session_email = patient_email p,
           session_psychologist_id = patient_psychologist_id p\<rparr>]
     \<and> localStorage_after st (handleLogin s signInResult patientResult signOutResult) ''patientSession'' =
       Some \<lparr>session_id = patient_id p, session_name = patient_name p,
           session_email = patient_email p,
           session_psychologist_id = patient_psychologist_id p\<rparr>
     \<and> filter is_navigation (handleLogin s signInResult patientResult signOutResult) =
       [Navigate ''/patient-dashboard'']"
  unfolding handleLogin_granted [OF assms]
  by (simp add: run_simps)

theorem handleLogin_patient_record_witness:
  "filter is_storage_write (handleLogin login_form (Resolved signIn_ok)
       (Resolved \<lparr>patient_data = Some pat, patient_error = None\<rparr>) (Resolved None)) =
       [LocalStorage_setItem ''patientSession''
          \<lparr>session_id = ''p1'', session_name = ''Pat'', session_email = ''pat@clinic.com'',
           session_psychologist_id = ''psy1''\<rparr>]
   \<and> localStorage_after Map.empty (handleLogin login_form (Resolved signIn_ok)
       (Resolved \<lparr>patient_data = Some pat, patient_error = None\<rparr>) (Resolved None)) ''patientSession'' =
       Some \<lparr>session_id = ''p1'', session_name = ''Pat'', session_email = ''pat@clinic.com'',
           session_psychologist_id = ''psy1''\<rparr>
   \<and> filter is_navigation (handleLogin login_form (Resolved signIn_ok)
       (Resolved \<lparr>patient_data = Some pat, patient_error = None\<rparr>) (Resolved None)) =
       [Navigate ''/patient-dashboard'']"
  using handleLogin_patient_record [of "Resolved signIn_ok" signIn_ok
      "\<lparr>user_email = ''pat@clinic.com''\<rparr>"
      "Resolved \<lparr>patient_data = Some pat, patient_error = None\<rparr>"
      "\<lparr>patient_data = Some pat, patient_error = None\<rparr>" pat
      login_form "Resolved None" Map.empty]
  by (simp add: signIn_ok_def pat_def)

text \<open>
  C9. A login whose credentials are verified and whose patient query returns an error
  performs exactly the effects of the same login with no row and no error, whatever
  row came with the error: the ``Access denied'' toast, then the sign-out, no write to
  local storage, no navigation. The patient query is sent once, and the only
  ``Login Failed'' toast there can be is that of a sign-out that throws.
\<close>

theorem handleLogin_patient_error:
  assumes "signInResult = Resolved r" and "auth_error r = None" and "auth_data_user r = Some user"
    and "patientResult = Resolved q" and "patient_error q = Some err"
  shows "handleLogin s signInResult patientResult signOutResult =
       handleLogin s signInResult
         (Resolved \<lparr>patient_data = (None :: 'a patient_scheme option), patient_error = None\<rparr>)
         signOutResult
     \<and> filter is_toast (handleLogin s signInResult patientResult signOutResult) =
         access_denied_toast #
         (case signOutResult of
            Rejected err' \<Rightarrow> [Toast ''Login Failed'' (message err') True]
          | Resolved x \<Rightarrow> [])
     \<and> filter is_request (handleLogin s signInResult patientResult signOutResult) =
         [SignInWithPassword (email s) (password s), SelectPatientByEmail (user_email user), SignOut]
     \<and> filter is_storage_write (handleLogin s signInResult patientResult signOutResult) = []
     \<and> localStorage_after st (handleLogin s signInResult patientResult signOutResult) = st
     \<and> filter is_navigation (handleLogin s signInResult patientResult signOutResult) = []"
proof -
  have denied: "patient_error q \<noteq> None \<or> patient_data q = None"
    using assms(5) by simp
  have absent:
    "patient_error \<lparr>patient_data = (None :: 'a patient_scheme option), patient_error = None\<rparr> \<noteq> None
      \<or> patient_data \<lparr>patient_data = (None :: 'a patient_scheme option), patient_error = None\<rparr> = None"
    by simp
  show ?thesis
    unfolding handleLogin_denied [OF assms(1-4) denied]
      handleLogin_denied [OF assms(1-3) refl absent]
    by (cases signOutResult) (simp_all add: access_denied_toast_def run_simps)
qed

theorem handleLogin_patient_error_witness:
  "handleLogin login_form (Resolved signIn_ok)
       (Resolved \<lparr>patient_data = Some pat, patient_error = Some (Error ''permission denied'')\<rparr>)
       (Resolved None) =
     handleLogin login_form (Resolved signIn_ok)
       (Resolved \<lparr>patient_data = (None :: patient option), patient_error = None\<rparr>) (Resolved None)
   \<and> filter is_toast (handleLogin login_form (Resolved signIn_ok)
       (Resolved \<lparr>patient_data = Some pat, patient_error = Some (Error ''permission denied'')\<rparr>)
       (Resolved None)) = [access_denied_toast]
   \<and> filter is_request (handleLogin login_form (Resolved signIn_ok)
       (Resolved \<lparr>patient_data = Some pat, patient_error = Some (Error ''permission denied'')\<rparr>)
       (Resolved None)) =
       [SignInWithPassword ''pat@clinic.com'' ''secret1'', SelectPatientByEmail ''pat@clinic.com'', SignOut]
   \<and> filter is_storage_write (handleLogin login_form (Resolved signIn_ok)
       (Resolved \<lparr>patient_data = Some pat, patient_error = Some (Error ''permission denied'')\<rparr>)
       (Resolved None)) = []
   \<and> localStorage_after Map.empty (handleLogin login_form (Resolved signIn_ok)
       (Resolved \<lparr>patient_data = Some pat, patient_error = Some (Error ''permission denied'')\<rparr>)
       (Resolved None)) = Map.empty
   \<and> filter is_navigation (handleLogin login_form (Resolved signIn_ok)
       (Resolved \<lparr>patient_data = Some pat, patient_error = Some (Error ''permission denied'')\<rparr>)
       (Resolved None)) = []"
  using handleLogin_patient_error [of "Resolved signIn_ok" signIn_ok
      "\<lparr>user_email = ''pat@clinic.com''\<rparr>"
      "Resolved \<lparr>patient_data = Some pat, patient_error = Some (Error ''permission denied'')\<rparr>"
      "\<lparr>patient_data = Some pat, patient_error = Some (Error ''permission denied'')\<rparr>"
      "Error ''permission denied''" login_form "Resolved None" Map.empty]
  by (simp add: signIn_ok_def login_form_def)

end
